theory Spec2Isabelle
  imports Main "HOL-Library.AList"
begin

section \<open>JavaScript values\<close>

text \<open>
  The server (\<^verbatim>\<open>src/server.ts\<close>) handles values of type \<^verbatim>\<open>any\<close>: the parsed JSON body of
  a request, the parsed query string, and the objects it builds as replies. They are modelled by
  one datatype of JavaScript values. A number is an \<^typ>\<open>int\<close>: the program only tests a number
  for being zero and hands it on. A string is the list of its characters: the program compares
  strings, tests for a prefix and drops one. An object is the list of its own properties, each
  key once.
\<close>

datatype jsval =
    JUndefined
  | JNull
  | JBool bool
  | JNum int
  | JStr string
  | JArr "jsval list"
  | JObj "(string \<times> jsval) list"

text \<open>ToBoolean: \<^verbatim>\<open>undefined\<close>, \<^verbatim>\<open>null\<close>, \<^verbatim>\<open>false\<close>, \<^verbatim>\<open>0\<close> and \<^verbatim>\<open>""\<close> are falsy,
  every array and object is truthy.\<close>

fun truthy :: "jsval \<Rightarrow> bool" where
  "truthy JUndefined = False"
| "truthy JNull = False"
| "truthy (JBool b) = b"
| "truthy (JNum n) = (n \<noteq> 0)"
| "truthy (JStr s) = (s \<noteq> [])"
| "truthy (JArr xs) = True"
| "truthy (JObj kvs) = True"

text \<open>\<^verbatim>\<open>a || b\<close> is \<^verbatim>\<open>a\<close> when \<^verbatim>\<open>a\<close> is truthy and \<^verbatim>\<open>b\<close> otherwise.\<close>

definition js_or :: "jsval \<Rightarrow> jsval \<Rightarrow> jsval" where
  "js_or a b = (if truthy a then a else b)"

text \<open>
  Reading a property \<^verbatim>\<open>v.k\<close> of a value other than \<^verbatim>\<open>undefined\<close> and \<^verbatim>\<open>null\<close>. The server
  reads the keys \<^verbatim>\<open>jsonrpc\<close>, \<^verbatim>\<open>id\<close>, \<^verbatim>\<open>method\<close>, \<^verbatim>\<open>params\<close>, \<^verbatim>\<open>name\<close> and \<^verbatim>\<open>arguments\<close>;
  none of them is a property of a boolean, a number, a string or an array, so the read gives
  \<^verbatim>\<open>undefined\<close> there. On \<^verbatim>\<open>undefined\<close> and \<^verbatim>\<open>null\<close> the read throws a TypeError: the one
  place where that can happen is written out in \<open>mcp\<close> below, and \<open>get_prop\<close> is never
  applied to such a value.
\<close>

fun get_prop :: "jsval \<Rightarrow> string \<Rightarrow> jsval" where
  "get_prop (JObj kvs) k = (case map_of kvs k of Some v \<Rightarrow> v | None \<Rightarrow> JUndefined)"
| "get_prop v k = JUndefined"

text \<open>\<^verbatim>\<open>s.startsWith(p)\<close> and \<^verbatim>\<open>s.substring(n)\<close> on strings.\<close>

definition startsWith :: "string \<Rightarrow> string \<Rightarrow> bool" where
  "startsWith s p = (take (length p) s = p)"

definition substring :: "nat \<Rightarrow> string \<Rightarrow> string" where
  "substring n s = drop n s"


section \<open>Requests and responses\<close>

text \<open>
  What the server reads of an Express request: the method, the path, the headers
  \<^verbatim>\<open>authorization\<close> and \<^verbatim>\<open>x-api-key\<close> (a string each, or absent), the query parameter
  \<^verbatim>\<open>apiKey\<close> (a string, an array or an object after query parsing, \<^verbatim>\<open>undefined\<close> when
  absent), and what \<^verbatim>\<open>express.json()\<close>, the first middleware, made of the body. Either it
  raised an error (JSON that does not parse, a body too large, an unsupported encoding):
  \<open>body_error\<close> is the HTTP status of that error. Or it raised none: \<open>body_error\<close> is
  \<open>None\<close> and \<open>body\<close> is \<^verbatim>\<open>req.body\<close> as it left it, the parsed JSON value, or \<^verbatim>\<open>undefined\<close>
  when there was no JSON body to parse.
\<close>

record request =
  req_method :: string
  req_path :: string
  authorization :: "string option"
  x_api_key :: "string option"
  query_apiKey :: jsval
  body_error :: "nat option"
  body :: jsval

datatype payload = Json jsval | Text string

text \<open>
  The Express response object, passed along and returned updated: the status code (200 until
  \<^verbatim>\<open>res.status\<close> changes it), the headers the server sets itself, and the body once it is
  sent (\<open>None\<close> while nothing has been sent).
\<close>

record res =
  statusCode :: nat
  headers :: "(string \<times> string) list"
  sent :: "payload option"

definition res0 :: res where
  "res0 = \<lparr>statusCode = 200, headers = [], sent = None\<rparr>"

definition setHeader :: "string \<Rightarrow> string \<Rightarrow> res \<Rightarrow> res" where
  "setHeader k v r = r\<lparr>headers := AList.update k v (headers r)\<rparr>"

definition status :: "nat \<Rightarrow> res \<Rightarrow> res" where
  "status n r = r\<lparr>statusCode := n\<rparr>"

definition json :: "jsval \<Rightarrow> res \<Rightarrow> res" where
  "json v r = r\<lparr>sent := Some (Json v)\<rparr>"

text \<open>
  Express: \<^verbatim>\<open>res.sendStatus(code)\<close> sets the status code and sends the registered status
  message as the text body of the response; for 200 that message is \<^verbatim>\<open>OK\<close>. A code without
  a registered message is sent as its decimal digits. The table of messages is cut down to the
  codes this server answers with.
\<close>

fun digits :: "nat \<Rightarrow> string" where
  "digits n = (if n < 10 then [char_of (48 + n)] else digits (n div 10) @ [char_of (48 + n mod 10)])"

declare digits.simps [simp del]

definition status_message :: "nat \<Rightarrow> string" where
  "status_message n =
     (if n = 200 then ''OK''
      else if n = 400 then ''Bad Request''
      else if n = 401 then ''Unauthorized''
      else if n = 403 then ''Forbidden''
      else if n = 404 then ''Not Found''
      else if n = 500 then ''Internal Server Error''
      else digits n)"

definition sendStatus :: "nat \<Rightarrow> res \<Rightarrow> res" where
  "sendStatus n r = r\<lparr>statusCode := n, sent := Some (Text (status_message n))\<rparr>"

text \<open>A middleware either calls \<^verbatim>\<open>next()\<close> or ends the response itself.\<close>

datatype flow = Next res | End res


section \<open>The CORS middleware\<close>

definition cors :: "request \<Rightarrow> res \<Rightarrow> flow" where
  "cors req r =
     (let r1 = setHeader ''Access-Control-Allow-Origin'' ''*'' r;
          r2 = setHeader ''Access-Control-Allow-Methods'' ''GET, POST, OPTIONS'' r1;
          r3 = setHeader ''Access-Control-Allow-Headers'' ''Content-Type, Authorization, X-API-Key'' r2
      in if req_method req = ''OPTIONS'' then End (sendStatus 200 r3) else Next r3)"


section \<open>The API key middleware\<close>

text \<open>
  \<^verbatim>\<open>MCP_API_KEY\<close> is \<^verbatim>\<open>process.env.MCP_API_KEY\<close>: a string, or \<open>None\<close> when the variable is
  not set. \<^verbatim>\<open>!MCP_API_KEY\<close> holds for \<open>None\<close> and for the empty string.
\<close>

definition apiKeyFromHeader :: "request \<Rightarrow> jsval" where
  "apiKeyFromHeader req =
     (case authorization req of
        None \<Rightarrow> JUndefined
      | Some authHeader \<Rightarrow>
          if startsWith authHeader ''Bearer '' then JStr (substring 7 authHeader)
          else JStr authHeader)"

definition apiKeyFromCustomHeader :: "request \<Rightarrow> jsval" where
  "apiKeyFromCustomHeader req =
     (case x_api_key req of None \<Rightarrow> JUndefined | Some h \<Rightarrow> JStr h)"

definition apiKeyFromQuery :: "request \<Rightarrow> jsval" where
  "apiKeyFromQuery req = query_apiKey req"

definition providedKey :: "request \<Rightarrow> jsval" where
  "providedKey req =
     js_or (js_or (apiKeyFromHeader req) (apiKeyFromCustomHeader req)) (apiKeyFromQuery req)"

definition unauthorized :: jsval where
  "unauthorized =
     JObj [(''jsonrpc'', JStr ''2.0''),
           (''error'', JObj [(''code'', JNum (- 32001)),
                             (''message'', JStr ''Unauthorized: API key required'')]),
           (''id'', JNull)]"

definition forbidden :: jsval where
  "forbidden =
     JObj [(''jsonrpc'', JStr ''2.0''),
           (''error'', JObj [(''code'', JNum (- 32003)),
                             (''message'', JStr ''Forbidden: Invalid API key'')]),
           (''id'', JNull)]"

definition apiKeyAuth :: "string option \<Rightarrow> request \<Rightarrow> res \<Rightarrow> flow" where
  "apiKeyAuth MCP_API_KEY req r =
     (case MCP_API_KEY of
        None \<Rightarrow> Next r
      | Some key \<Rightarrow>
          if key = [] then Next r
          else if \<not> truthy (providedKey req) then End (json unauthorized (status 401 r))
          else if providedKey req \<noteq> JStr key then End (json forbidden (status 403 r))
          else Next r)"

text \<open>
  The three places a credential can come from, in the order the \<^verbatim>\<open>||\<close> chain of
  \<open>providedKey\<close> reads them.
\<close>

definition candidates :: "request \<Rightarrow> jsval list" where
  "candidates req = [apiKeyFromHeader req, apiKeyFromCustomHeader req, apiKeyFromQuery req]"


section \<open>The external collaborator\<close>

text \<open>
  \<^verbatim>\<open>handleToolCall\<close> (imported from \<^verbatim>\<open>./handlers/index.js\<close>) is not part of the server: it is
  a parameter of the model. It is called with the tool name and the arguments, may change a state
  of its own (of any type \<open>'s\<close>), and the promise it returns resolves with a value, rejects
  with a thrown value, or never settles.

  Of a thrown value the server observes \<^verbatim>\<open>error instanceof Error\<close>, and then either
  \<^verbatim>\<open>error.message\<close> or \<^verbatim>\<open>String(error)\<close>. \<open>ErrorInstance m\<close> is an \<^verbatim>\<open>Error\<close> whose
  \<^verbatim>\<open>message\<close> reads as the value \<open>m\<close> (a string, unless the collaborator has put something
  else there). \<open>NonError t\<close> is another thrown value that \<^verbatim>\<open>String\<close> turns into the string
  \<open>t\<close>. \<open>Unprintable e\<close> is a thrown value on which that read or that conversion throws \<open>e\<close>
  in its turn: an object without a usable \<^verbatim>\<open>toString\<close>, such as \<^verbatim>\<open>Object.create(null)\<close>, on
  which \<^verbatim>\<open>String\<close> throws a TypeError.

  A value the promise resolves with is handed to \<^verbatim>\<open>res.json\<close>, which serialises it with
  \<^verbatim>\<open>JSON.stringify\<close>: \<open>Plain v\<close> is a value that serialises, \<open>Unserialisable e\<close> one on which
  \<^verbatim>\<open>JSON.stringify\<close> throws \<open>e\<close> (a BigInt, an object that contains itself).
\<close>

datatype thrown = ErrorInstance jsval | NonError string | Unprintable thrown

datatype tool_result = Plain jsval | Unserialisable thrown

datatype outcome = Resolved tool_result | Rejected thrown | Pending

type_synonym 's collaborator = "jsval \<Rightarrow> jsval \<Rightarrow> 's \<Rightarrow> outcome \<times> 's"

text \<open>\<^verbatim>\<open>error instanceof Error ? error.message : String(error)\<close>: its value, or what
  evaluating the expression throws.\<close>

fun error_data :: "thrown \<Rightarrow> thrown + jsval" where
  "error_data (ErrorInstance m) = Inr m"
| "error_data (NonError t) = Inr (JStr t)"
| "error_data (Unprintable e) = Inl e"

text \<open>The message of the TypeError that V8 throws for \<^verbatim>\<open>String(Object.create(null))\<close>.\<close>

definition cannot_convert :: string where
  "cannot_convert = ''Cannot convert object to primitive value''"


section \<open>The JSON-RPC endpoint\<close>

text \<open>
  The message of the TypeError that V8 throws for \<^verbatim>\<open>request.jsonrpc\<close> when \<^verbatim>\<open>request\<close> is
  \<^verbatim>\<open>undefined\<close> or \<^verbatim>\<open>null\<close>.
\<close>

definition cannot_read :: "jsval \<Rightarrow> string" where
  "cannot_read v =
     (if v = JNull then ''Cannot read properties of null (reading 'jsonrpc')''
      else ''Cannot read properties of undefined (reading 'jsonrpc')'')"

text \<open>
  The outer \<^verbatim>\<open>catch\<close> of the handler (lines 187 to 198), for what the \<^verbatim>\<open>try\<close> block throws.
  \<^verbatim>\<open>res.status(500)\<close> runs first; if building the envelope throws in its turn, nothing is sent
  and the handler's promise rejects.
\<close>

definition optional_id :: "request \<Rightarrow> jsval" where
  "optional_id req =
     (if body req = JUndefined \<or> body req = JNull then JUndefined else get_prop (body req) ''id'')"

definition catch_all :: "thrown \<Rightarrow> request \<Rightarrow> res \<Rightarrow> res" where
  "catch_all error req r =
     (case error_data error of
        Inl e \<Rightarrow> status 500 r
      | Inr d \<Rightarrow>
          json (JObj [(''jsonrpc'', JStr ''2.0''),
                      (''id'', js_or (optional_id req) JNull),
                      (''error'', JObj [(''code'', JNum (- 32603)),
                                        (''message'', JStr ''Internal error''),
                                        (''data'', d)])])
            (status 500 r))"

text \<open>
  The handler of \<^verbatim>\<open>POST /mcp\<close>, run after \<open>apiKeyAuth\<close> has called \<^verbatim>\<open>next()\<close>. \<open>tools\<close> is the
  catalogue imported from \<^verbatim>\<open>./tools/tool-definitions.js\<close>. The result is the response and the
  collaborator's state. Three things in the \<^verbatim>\<open>try\<close> block can throw, and the outer \<^verbatim>\<open>catch\<close>
  answers each: reading \<^verbatim>\<open>request.jsonrpc\<close> when there is no body to read it from (the first
  branch), \<^verbatim>\<open>String(error)\<close> in the inner \<^verbatim>\<open>catch\<close>, and \<^verbatim>\<open>res.json(response)\<close> on a result
  that does not serialise. When the collaborator's promise never settles, nothing is sent.
\<close>

definition mcp :: "'s collaborator \<Rightarrow> jsval \<Rightarrow> request \<Rightarrow> res \<Rightarrow> 's \<Rightarrow> res \<times> 's" where
  "mcp handleToolCall tools req r s =
     (let request = body req in
      if request = JUndefined \<or> request = JNull then
        (catch_all (ErrorInstance (JStr (cannot_read request))) req r, s)
      else if \<not> truthy (get_prop request ''jsonrpc'') \<or> get_prop request ''jsonrpc'' \<noteq> JStr ''2.0'' then
        (json (JObj [(''jsonrpc'', JStr ''2.0''),
                     (''error'', JObj [(''code'', JNum (- 32600)),
                                       (''message'', JStr ''Invalid Request'')]),
                     (''id'', js_or (get_prop request ''id'') JNull)])
           (status 400 r), s)
      else if get_prop request ''method'' = JStr ''initialize'' then
        (json (JObj [(''jsonrpc'', JStr ''2.0''),
                     (''id'', get_prop request ''id''),
                     (''result'', JObj [(''protocolVersion'', JStr ''2024-11-05''),
                                        (''capabilities'', JObj [(''tools'', JObj [])]),
                                        (''serverInfo'', JObj [(''name'', JStr ''readwise-mcp-enhanced''),
                                                               (''version'', JStr ''1.0.0'')])])]) r, s)
      else if get_prop request ''method'' = JStr ''tools/list'' then
        (json (JObj [(''jsonrpc'', JStr ''2.0''),
                     (''id'', get_prop request ''id''),
                     (''result'', JObj [(''tools'', tools)])]) r, s)
      else if get_prop request ''method'' = JStr ''tools/call'' then
        (let params = js_or (get_prop request ''params'') (JObj []);
             name = get_prop params ''name'';
             args = get_prop params ''arguments''
         in if \<not> truthy name then
              (json (JObj [(''jsonrpc'', JStr ''2.0''),
                           (''id'', get_prop request ''id''),
                           (''error'', JObj [(''code'', JNum (- 32602)),
                                             (''message'', JStr ''Invalid params: tool name is required'')])]) r, s)
            else
              (case handleToolCall name (js_or args (JObj [])) s of
                 (Resolved (Plain result), s') \<Rightarrow>
                   (json (JObj [(''jsonrpc'', JStr ''2.0''),
                                (''id'', get_prop request ''id''),
                                (''result'', result)]) r, s')
               | (Resolved (Unserialisable e), s') \<Rightarrow> (catch_all e req r, s')
               | (Rejected error, s') \<Rightarrow>
                   (case error_data error of
                      Inr d \<Rightarrow>
                        (json (JObj [(''jsonrpc'', JStr ''2.0''),
                                     (''id'', get_prop request ''id''),
                                     (''error'', JObj [(''code'', JNum (- 32603)),
                                                       (''message'', JStr ''Internal error''),
                                                       (''data'', d)])]) r, s')
                    | Inl e \<Rightarrow> (catch_all e req r, s'))
               | (Pending, s') \<Rightarrow> (r, s')))
      else
        (json (JObj [(''jsonrpc'', JStr ''2.0''),
                     (''id'', get_prop request ''id''),
                     (''error'', JObj [(''code'', JNum (- 32601)),
                                       (''message'', JStr ''Method not found'')])]) r, s))"

text \<open>
  Reading a reply: the JSON value a response carries (\<^verbatim>\<open>undefined\<close> when it carries none),
  and the fields of a JSON-RPC envelope in it.
\<close>

definition envelope :: "res \<Rightarrow> jsval" where
  "envelope r = (case sent r of Some (Json v) \<Rightarrow> v | _ \<Rightarrow> JUndefined)"

definition error_code :: "res \<Rightarrow> jsval" where
  "error_code r = get_prop (get_prop (envelope r) ''error'') ''code''"

definition error_message :: "res \<Rightarrow> jsval" where
  "error_message r = get_prop (get_prop (envelope r) ''error'') ''message''"

definition error_detail :: "res \<Rightarrow> jsval" where
  "error_detail r = get_prop (get_prop (envelope r) ''error'') ''data''"

definition reply_id :: "res \<Rightarrow> jsval" where
  "reply_id r = get_prop (envelope r) ''id''"


text \<open>The tool name and the arguments a \<^verbatim>\<open>tools/call\<close> request carries, as \<open>mcp\<close> reads them.\<close>

definition tool_name :: "request \<Rightarrow> jsval" where
  "tool_name req = get_prop (js_or (get_prop (body req) ''params'') (JObj [])) ''name''"

definition tool_args :: "request \<Rightarrow> jsval" where
  "tool_args req =
     js_or (get_prop (js_or (get_prop (body req) ''params'') (JObj [])) ''arguments'') (JObj [])"


section \<open>The event stream\<close>

text \<open>
  A stream opened by \<^verbatim>\<open>GET /sse\<close>: the response with its headers, the time in milliseconds
  since the handler ran, the chunks given to \<^verbatim>\<open>res.write\<close> with the time of each, the interval
  timer \<^verbatim>\<open>keepAlive\<close> (the time it fires next; \<open>None\<close> once \<^verbatim>\<open>clearInterval\<close> has cancelled it)
  and whether \<^verbatim>\<open>res.end()\<close> has been called. The timer is the ideal one of \<^verbatim>\<open>setInterval\<close>:
  it fires every \<open>keepAliveInterval\<close> milliseconds for as long as it is not cancelled.
\<close>

record stream =
  response :: res
  clock :: nat
  written :: "(nat \<times> string) list"
  keepAlive :: "nat option"
  ended :: bool

definition keepAliveInterval :: nat where
  "keepAliveInterval = 30000"

definition connected :: string where
  \<open>connected = ''data: {"type":"connection","status":"connected"}\<newline>\<newline>''\<close>

definition keepalive :: string where
  "keepalive = '': keepalive\<newline>\<newline>''"

definition sse :: "res \<Rightarrow> stream" where
  "sse r =
     (let r1 = setHeader ''Content-Type'' ''text/event-stream'' r;
          r2 = setHeader ''Cache-Control'' ''no-cache'' r1;
          r3 = setHeader ''Connection'' ''keep-alive'' r2;
          r4 = setHeader ''Access-Control-Allow-Origin'' ''*'' r3
      in \<lparr>response = r4, clock = 0, written = [(0, connected)],
          keepAlive = Some keepAliveInterval, ended = False\<rparr>)"

text \<open>
  What happens to an open stream: a millisecond passes (and the timer's callback runs if the
  timer is due), or the request emits \<^verbatim>\<open>close\<close>.
\<close>

datatype event = Millisecond | Close

fun step :: "event \<Rightarrow> stream \<Rightarrow> stream" where
  "step Millisecond st =
     (let t = clock st + 1 in
      if keepAlive st = Some t
      then st\<lparr>clock := t, written := written st @ [(t, keepalive)],
              keepAlive := Some (t + keepAliveInterval)\<rparr>
      else st\<lparr>clock := t\<rparr>)"
| "step Close st = st\<lparr>keepAlive := None, ended := True\<rparr>"

fun run :: "event list \<Rightarrow> stream \<Rightarrow> stream" where
  "run [] st = st"
| "run (e # es) st = run es (step e st)"

text \<open>The milliseconds that pass before the first \<^verbatim>\<open>close\<close>.\<close>

definition open_time :: "event list \<Rightarrow> nat" where
  "open_time es = length (takeWhile (\<lambda>e. e \<noteq> Close) es)"


section \<open>The application\<close>

text \<open>
  The middleware and routes in the order they are registered: \<^verbatim>\<open>express.json()\<close>, the CORS
  middleware, then the routes. An error that \<^verbatim>\<open>express.json()\<close> raises goes to Express's error
  handler, which answers with the status of the error; none of the code of the server runs, so
  the reply has no CORS header. Which requests a route \<^verbatim>\<open>app.get(path, ...)\<close> or
  \<^verbatim>\<open>app.post(path, ...)\<close> takes is decided by Express's router, a parameter here:
  \<open>matches verb path req\<close>. A request that no route takes is left to Express's final handler.
\<close>

datatype reply = Reply res | Stream stream | Unrouted res | BodyRejected nat

definition health :: jsval where
  "health = JObj [(''status'', JStr ''ok''), (''service'', JStr ''readwise-mcp-enhanced'')]"

definition app ::
  "(string \<Rightarrow> string \<Rightarrow> request \<Rightarrow> bool) \<Rightarrow> string option \<Rightarrow> jsval \<Rightarrow> 's collaborator
     \<Rightarrow> request \<Rightarrow> 's \<Rightarrow> reply \<times> 's" where
  "app matches MCP_API_KEY tools handleToolCall req s =
     (case body_error req of
        Some code \<Rightarrow> (BodyRejected code, s)
      | None \<Rightarrow>
         (case cors req res0 of
            End r \<Rightarrow> (Reply r, s)
          | Next r \<Rightarrow>
              if matches ''GET'' ''/health'' req then (Reply (json health r), s)
              else if matches ''POST'' ''/mcp'' req then
                (case apiKeyAuth MCP_API_KEY req r of
                   End r' \<Rightarrow> (Reply r', s)
                 | Next r' \<Rightarrow>
                     (case mcp handleToolCall tools req r' s of (r'', s') \<Rightarrow> (Reply r'', s')))
              else if matches ''GET'' ''/sse'' req then
                (case apiKeyAuth MCP_API_KEY req r of
                   End r' \<Rightarrow> (Reply r', s)
                 | Next r' \<Rightarrow> (Stream (sse r'), s))
              else (Unrouted r, s)))"

text \<open>The headers the CORS middleware puts on every response.\<close>

definition cors_headers :: "(string \<times> string) list" where
  "cors_headers =
     [(''Access-Control-Allow-Origin'', ''*''),
      (''Access-Control-Allow-Methods'', ''GET, POST, OPTIONS''),
      (''Access-Control-Allow-Headers'', ''Content-Type, Authorization, X-API-Key'')]"


text \<open>The response as the CORS middleware passes it on to the routes.\<close>

definition after_cors :: res where
  "after_cors = \<lparr>statusCode = 200, headers = cors_headers, sent = None\<rparr>"

text \<open>A reply without a body: nothing was sent, or an empty text.\<close>

definition no_body :: "reply \<Rightarrow> bool" where
  "no_body rep =
     (case rep of
        Reply r \<Rightarrow> sent r = None \<or> sent r = Some (Text [])
      | Stream st \<Rightarrow> False
      | Unrouted r \<Rightarrow> False
      | BodyRejected code \<Rightarrow> False)"


section \<open>A counting collaborator and example requests\<close>

text \<open>
  \<open>counting\<close> puts a call counter in front of a collaborator's state: every call adds one.
  \<open>stub\<close> is a collaborator that throws an \<^verbatim>\<open>Error\<close> for the tool \<^verbatim>\<open>X\<close>, the number 404 for
  the tool \<^verbatim>\<open>Z\<close> and \<^verbatim>\<open>Object.create(null)\<close> for the tool \<^verbatim>\<open>W\<close>, resolves with a BigInt for the
  tool \<^verbatim>\<open>B\<close>, and resolves with a JSON value for every other tool. \<open>exact\<close> is a router that takes a request whose method and path are
  literally those of the route.
\<close>

definition counting :: "'s collaborator \<Rightarrow> (nat \<times> 's) collaborator" where
  "counting handleToolCall name args =
     (\<lambda>(n, s). case handleToolCall name args s of (out, s') \<Rightarrow> (out, (Suc n, s')))"

definition stub :: "unit collaborator" where
  "stub name args s =
     (if name = JStr ''X'' then (Rejected (ErrorInstance (JStr ''boom'')), s)
      else if name = JStr ''Z'' then (Rejected (NonError ''404''), s)
      else if name = JStr ''W'' then
        (Rejected (Unprintable (ErrorInstance (JStr cannot_convert))), s)
      else if name = JStr ''B'' then
        (Resolved (Unserialisable (ErrorInstance (JStr ''Do not know how to serialize a BigInt''))), s)
      else (Resolved (Plain (JObj [(''content'', JArr [args])])), s))"

definition rpc :: "jsval \<Rightarrow> request" where
  "rpc b = \<lparr>req_method = ''POST'', req_path = ''/mcp'', authorization = Some ''Bearer s3cret'',
            x_api_key = None, query_apiKey = JUndefined, body_error = None, body = b\<rparr>"

definition call_X :: request where
  "call_X = rpc (JObj [(''jsonrpc'', JStr ''2.0''), (''id'', JNum 1),
                       (''method'', JStr ''tools/call''),
                       (''params'', JObj [(''name'', JStr ''X'')])])"

definition call_Z :: request where
  "call_Z = rpc (JObj [(''jsonrpc'', JStr ''2.0''), (''id'', JNum 5),
                       (''method'', JStr ''tools/call''),
                       (''params'', JObj [(''name'', JStr ''Z'')])])"

definition call_W :: request where
  "call_W = rpc (JObj [(''jsonrpc'', JStr ''2.0''), (''id'', JNum 6),
                       (''method'', JStr ''tools/call''),
                       (''params'', JObj [(''name'', JStr ''W'')])])"



definition call_unnamed :: request where
  "call_unnamed = rpc (JObj [(''jsonrpc'', JStr ''2.0''), (''id'', JNum 3),
                             (''method'', JStr ''tools/call''),
                             (''params'', JObj [(''name'', JStr [])])])"

definition ping :: request where
  "ping = rpc (JObj [(''jsonrpc'', JStr ''2.0''), (''id'', JNum 4), (''method'', JStr ''ping'')])"

definition old_tag_id_zero :: request where
  "old_tag_id_zero =
     rpc (JObj [(''jsonrpc'', JStr ''1.0''), (''id'', JNum 0), (''method'', JStr ''initialize'')])"

definition wrong_bearer_right_header :: request where
  "wrong_bearer_right_header =
     \<lparr>req_method = ''POST'', req_path = ''/mcp'', authorization = Some ''Bearer guess'',
      x_api_key = Some ''s3cret'', query_apiKey = JStr ''s3cret'', body_error = None,
      body = JObj []\<rparr>"

definition no_credential_with_id :: request where
  "no_credential_with_id =
     \<lparr>req_method = ''POST'', req_path = ''/mcp'', authorization = None,
      x_api_key = None, query_apiKey = JUndefined, body_error = None,
      body = JObj [(''jsonrpc'', JStr ''2.0''), (''id'', JNum 7),
                   (''method'', JStr ''initialize'')]\<rparr>"

definition exact :: "string \<Rightarrow> string \<Rightarrow> request \<Rightarrow> bool" where
  "exact verb path req = (req_method req = verb \<and> req_path req = path)"

definition two_minutes :: "event list" where
  "two_minutes = replicate 60000 Millisecond @ Close # replicate 60000 Millisecond"

definition credentials :: "string option \<Rightarrow> string option \<Rightarrow> jsval \<Rightarrow> request" where
  "credentials a x q =
     \<lparr>req_method = ''GET'', req_path = ''/sse'', authorization = a, x_api_key = x,
      query_apiKey = q, body_error = None, body = JUndefined\<rparr>"

definition preflight_bad_json :: request where
  "preflight_bad_json =
     \<lparr>req_method = ''OPTIONS'', req_path = ''/mcp'', authorization = None,
      x_api_key = None, query_apiKey = JUndefined, body_error = Some 400, body = JUndefined\<rparr>"

definition preflight :: request where
  "preflight =
     \<lparr>req_method = ''OPTIONS'', req_path = ''/mcp'', authorization = None,
      x_api_key = None, query_apiKey = JUndefined, body_error = None, body = JObj []\<rparr>"


section \<open>Authorization\<close>

lemma find_candidates_None:
  "find truthy (candidates req) = None \<Longrightarrow> \<not> truthy (providedKey req)"
  by (simp add: providedKey_def candidates_def js_or_def split: if_splits)

lemma find_candidates_Some:
  "find truthy (candidates req) = Some c \<Longrightarrow> providedKey req = c \<and> truthy c"
  by (auto simp add: providedKey_def candidates_def js_or_def split: if_splits)

text \<open>
  C6. With no secret configured (the variable unset, or set to the empty string) the middleware
  calls \<^verbatim>\<open>next()\<close> for every request and leaves the response untouched, whatever credentials
  the request carries.
\<close>

theorem auth_disabled_allows:
  "apiKeyAuth None req r = Next r \<and> apiKeyAuth (Some []) req r = Next r"
  by (simp add: apiKeyAuth_def)

theorem auth_disabled_allows_witness:
  "apiKeyAuth None wrong_bearer_right_header res0 = Next res0
   \<and> apiKeyAuth (Some []) wrong_bearer_right_header res0 = Next res0"
  using auth_disabled_allows [of wrong_bearer_right_header res0]
  by simp

text \<open>The candidates in terms of what the request carries.\<close>

lemma candidates_fields:
  "candidates req =
     [case authorization req of
        None \<Rightarrow> JUndefined
      | Some h \<Rightarrow> JStr (if take 7 h = ''Bearer '' then drop 7 h else h),
      case x_api_key req of None \<Rightarrow> JUndefined | Some h \<Rightarrow> JStr h,
      query_apiKey req]"
proof -
  have "length ''Bearer '' = 7" by simp
  then show ?thesis
    by (simp only: candidates_def apiKeyFromHeader_def apiKeyFromCustomHeader_def
        apiKeyFromQuery_def startsWith_def substring_def)
      (simp split: option.splits)
qed

text \<open>
  C1. With a secret configured, the provided credential is the first truthy (non-empty) one
  of three values, in this order: the \<^verbatim>\<open>Authorization\<close> header (without its prefix
  \<^verbatim>\<open>Bearer \<close> when it has it, whole otherwise), the \<^verbatim>\<open>X-API-Key\<close> header, the query parameter
  \<^verbatim>\<open>apiKey\<close>. No such value: status 401 and the envelope with code -32001. The chosen value is
  not the string \<open>key\<close>: status 403 and the envelope with code -32003, whatever the values
  after it are. It is the string \<open>key\<close>: \<^verbatim>\<open>next()\<close>, with the response untouched.
\<close>

theorem auth_precedence:
  assumes "key \<noteq> []"
  shows "apiKeyAuth (Some key) req r =
           (case find truthy
                   [case authorization req of
                      None \<Rightarrow> JUndefined
                    | Some h \<Rightarrow> JStr (if take 7 h = ''Bearer '' then drop 7 h else h),
                    case x_api_key req of None \<Rightarrow> JUndefined | Some h \<Rightarrow> JStr h,
                    query_apiKey req] of
              None \<Rightarrow>
                End (r\<lparr>statusCode := 401,
                       sent := Some (Json (JObj
                         [(''jsonrpc'', JStr ''2.0''),
                          (''error'', JObj [(''code'', JNum (- 32001)),
                                            (''message'', JStr ''Unauthorized: API key required'')]),
                          (''id'', JNull)]))\<rparr>)
            | Some c \<Rightarrow>
                if c = JStr key then Next r
                else End (r\<lparr>statusCode := 403,
                            sent := Some (Json (JObj
                              [(''jsonrpc'', JStr ''2.0''),
                               (''error'', JObj [(''code'', JNum (- 32003)),
                                                 (''message'', JStr ''Forbidden: Invalid API key'')]),
                               (''id'', JNull)]))\<rparr>))"
proof (cases "find truthy (candidates req)")
  case None
  from find_candidates_None [OF None] assms
  have "apiKeyAuth (Some key) req r = End (json unauthorized (status 401 r))"
    by (simp add: apiKeyAuth_def)
  with None show ?thesis
    by (simp add: candidates_fields [symmetric] json_def status_def unauthorized_def)
next
  case (Some c)
  from find_candidates_Some [OF Some] assms
  have "apiKeyAuth (Some key) req r =
          (if c = JStr key then Next r else End (json forbidden (status 403 r)))"
    by (simp add: apiKeyAuth_def)
  with Some show ?thesis
    by (simp add: candidates_fields [symmetric] json_def status_def forbidden_def)
qed

theorem auth_precedence_witness:
  "''s3cret'' \<noteq> []
   \<and> apiKeyAuth (Some ''s3cret'') (credentials (Some ''Bearer s3cret'') None JUndefined) res0
       = Next res0
   \<and> apiKeyAuth (Some ''s3cret'') (credentials (Some ''s3cret'') None JUndefined) res0
       = Next res0
   \<and> apiKeyAuth (Some ''s3cret'') (credentials None (Some ''s3cret'') JUndefined) res0
       = Next res0
   \<and> apiKeyAuth (Some ''s3cret'') (credentials None None (JStr ''s3cret'')) res0
       = Next res0
   \<and> apiKeyAuth (Some ''s3cret'') (credentials (Some ''Bearer '') (Some []) (JStr ''s3cret'')) res0
       = Next res0
   \<and> apiKeyAuth (Some ''s3cret'')
         (credentials (Some ''Bearer guess'') (Some ''s3cret'') (JStr ''s3cret'')) res0
       = End \<lparr>statusCode = 403, headers = [],
              sent = Some (Json (JObj
                [(''jsonrpc'', JStr ''2.0''),
                 (''error'', JObj [(''code'', JNum (- 32003)),
                                   (''message'', JStr ''Forbidden: Invalid API key'')]),
                 (''id'', JNull)]))\<rparr>
   \<and> apiKeyAuth (Some ''s3cret'') (credentials None (Some ''guess'') (JStr ''s3cret'')) res0
       = End \<lparr>statusCode = 403, headers = [],
              sent = Some (Json (JObj
                [(''jsonrpc'', JStr ''2.0''),
                 (''error'', JObj [(''code'', JNum (- 32003)),
                                   (''message'', JStr ''Forbidden: Invalid API key'')]),
                 (''id'', JNull)]))\<rparr>
   \<and> apiKeyAuth (Some ''s3cret'') (credentials None None JUndefined) res0
       = End \<lparr>statusCode = 401, headers = [],
              sent = Some (Json (JObj
                [(''jsonrpc'', JStr ''2.0''),
                 (''error'', JObj [(''code'', JNum (- 32001)),
                                   (''message'', JStr ''Unauthorized: API key required'')]),
                 (''id'', JNull)]))\<rparr>"
proof -
  have k: "''s3cret'' \<noteq> []" by simp
  note t = auth_precedence [OF k, where r = res0]
  show ?thesis
    by (simp only: t) (simp add: credentials_def res0_def)
qed

text \<open>
  C10. Whenever the middleware ends the response itself, the envelope's \<^verbatim>\<open>id\<close> is
  \<^verbatim>\<open>null\<close>, whatever the request body holds, and the response is either status 401 with code
  -32001 or status 403 with code -32003.
\<close>

theorem auth_failure_id_null:
  assumes "apiKeyAuth MCP_API_KEY req r = End r'"
  shows "reply_id r' = JNull \<and>
         ((statusCode r' = 401 \<and> error_code r' = JNum (- 32001)) \<or>
          (statusCode r' = 403 \<and> error_code r' = JNum (- 32003)))"
  using assms
  by (auto simp add: apiKeyAuth_def reply_id_def error_code_def envelope_def json_def status_def
      unauthorized_def forbidden_def split: option.splits if_splits)

theorem auth_failure_id_null_witness:
  "apiKeyAuth (Some ''s3cret'') no_credential_with_id res0
     = End (json unauthorized (status 401 res0))
   \<and> reply_id (json unauthorized (status 401 res0)) = JNull
   \<and> statusCode (json unauthorized (status 401 res0)) = 401
   \<and> error_code (json unauthorized (status 401 res0)) = JNum (- 32001)"
proof -
  have h: "apiKeyAuth (Some ''s3cret'') no_credential_with_id res0
             = End (json unauthorized (status 401 res0))"
    by (simp add: apiKeyAuth_def providedKey_def js_or_def apiKeyFromHeader_def
        apiKeyFromCustomHeader_def apiKeyFromQuery_def no_credential_with_id_def)
  from auth_failure_id_null [OF h] h show ?thesis
    by (simp add: json_def status_def res0_def)
qed


section \<open>Routing\<close>

text \<open>
  C5. A request whose \<^verbatim>\<open>jsonrpc\<close> is \<^verbatim>\<open>"2.0"\<close> and whose \<^verbatim>\<open>method\<close> is none of
  \<^verbatim>\<open>initialize\<close>, \<^verbatim>\<open>tools/list\<close> and \<^verbatim>\<open>tools/call\<close> (a missing method reads as
  \<^verbatim>\<open>undefined\<close>) is answered with code -32601; the collaborator's state is as it was.
\<close>

theorem unknown_method_not_found:
  assumes "get_prop (body req) ''jsonrpc'' = JStr ''2.0''"
    and "get_prop (body req) ''method''
           \<notin> {JStr ''initialize'', JStr ''tools/list'', JStr ''tools/call''}"
  shows "mcp handleToolCall tools req r s =
           (json (JObj [(''jsonrpc'', JStr ''2.0''),
                        (''id'', get_prop (body req) ''id''),
                        (''error'', JObj [(''code'', JNum (- 32601)),
                                          (''message'', JStr ''Method not found'')])]) r, s)
         \<and> error_code (fst (mcp handleToolCall tools req r s)) = JNum (- 32601)"
proof -
  from assms(1) have "body req \<noteq> JUndefined" "body req \<noteq> JNull" by auto
  with assms have "mcp handleToolCall tools req r s =
           (json (JObj [(''jsonrpc'', JStr ''2.0''),
                        (''id'', get_prop (body req) ''id''),
                        (''error'', JObj [(''code'', JNum (- 32601)),
                                          (''message'', JStr ''Method not found'')])]) r, s)"
    by (simp add: mcp_def Let_def)
  then show ?thesis
    by (simp add: error_code_def envelope_def json_def)
qed

theorem unknown_method_not_found_witness:
  "get_prop (body ping) ''jsonrpc'' = JStr ''2.0''
   \<and> get_prop (body ping) ''method''
        \<notin> {JStr ''initialize'', JStr ''tools/list'', JStr ''tools/call''}
   \<and> error_code (fst (mcp stub (JArr []) ping res0 ())) = JNum (- 32601)"
proof -
  have h1: "get_prop (body ping) ''jsonrpc'' = JStr ''2.0''"
    by (simp add: ping_def rpc_def)
  have h2: "get_prop (body ping) ''method''
              \<notin> {JStr ''initialize'', JStr ''tools/list'', JStr ''tools/call''}"
    by (simp add: ping_def rpc_def)
  from unknown_method_not_found [OF h1 h2, of stub "JArr []" res0 "()"] h1 h2
  show ?thesis by blast
qed


section \<open>Tool calls\<close>

text \<open>What \<open>mcp\<close> does with a \<^verbatim>\<open>tools/call\<close> request, in terms of the name and arguments.\<close>

lemma mcp_tools_call:
  assumes "get_prop (body req) ''jsonrpc'' = JStr ''2.0''"
    and "get_prop (body req) ''method'' = JStr ''tools/call''"
  shows "mcp handleToolCall tools req r s =
           (if \<not> truthy (tool_name req) then
              (json (JObj [(''jsonrpc'', JStr ''2.0''),
                           (''id'', get_prop (body req) ''id''),
                           (''error'', JObj [(''code'', JNum (- 32602)),
                                             (''message'', JStr ''Invalid params: tool name is required'')])]) r, s)
            else
              (case handleToolCall (tool_name req) (tool_args req) s of
                 (Resolved (Plain result), s') \<Rightarrow>
                   (json (JObj [(''jsonrpc'', JStr ''2.0''),
                                (''id'', get_prop (body req) ''id''),
                                (''result'', result)]) r, s')
               | (Resolved (Unserialisable e), s') \<Rightarrow> (catch_all e req r, s')
               | (Rejected error, s') \<Rightarrow>
                   (case error_data error of
                      Inr d \<Rightarrow>
                        (json (JObj [(''jsonrpc'', JStr ''2.0''),
                                     (''id'', get_prop (body req) ''id''),
                                     (''error'', JObj [(''code'', JNum (- 32603)),
                                                       (''message'', JStr ''Internal error''),
                                                       (''data'', d)])]) r, s')
                    | Inl e \<Rightarrow> (catch_all e req r, s'))
               | (Pending, s') \<Rightarrow> (r, s')))"
proof -
  from assms(1) have "body req \<noteq> JUndefined" "body req \<noteq> JNull" by auto
  with assms show ?thesis
    by (simp add: mcp_def Let_def tool_name_def tool_args_def)
qed

text \<open>
  C4. A \<^verbatim>\<open>tools/call\<close> request in a valid envelope whose name is missing or empty (falsy) is
  answered with code -32602, and the collaborator is not called: its state comes back as it
  was, and a call counter in front of any collaborator stays where it stood.
\<close>

theorem missing_name_invalid_params:
  assumes "get_prop (body req) ''jsonrpc'' = JStr ''2.0''"
    and "get_prop (body req) ''method'' = JStr ''tools/call''"
    and "\<not> truthy (tool_name req)"
  shows "mcp handleToolCall tools req r s =
           (json (JObj [(''jsonrpc'', JStr ''2.0''),
                        (''id'', get_prop (body req) ''id''),
                        (''error'', JObj [(''code'', JNum (- 32602)),
                                          (''message'', JStr ''Invalid params: tool name is required'')])]) r, s)
         \<and> error_code (fst (mcp handleToolCall tools req r s)) = JNum (- 32602)
         \<and> snd (mcp (counting handleToolCall) tools req r (n, s)) = (n, s)"
  using assms
  by (simp add: mcp_tools_call error_code_def envelope_def json_def)

theorem missing_name_invalid_params_witness:
  "get_prop (body call_unnamed) ''jsonrpc'' = JStr ''2.0''
   \<and> get_prop (body call_unnamed) ''method'' = JStr ''tools/call''
   \<and> \<not> truthy (tool_name call_unnamed)
   \<and> error_code (fst (mcp stub (JArr []) call_unnamed res0 ())) = JNum (- 32602)
   \<and> snd (mcp (counting stub) (JArr []) call_unnamed res0 (0, ())) = (0, ())"
proof -
  have h1: "get_prop (body call_unnamed) ''jsonrpc'' = JStr ''2.0''"
    by (simp add: call_unnamed_def rpc_def)
  have h2: "get_prop (body call_unnamed) ''method'' = JStr ''tools/call''"
    by (simp add: call_unnamed_def rpc_def)
  have h3: "\<not> truthy (tool_name call_unnamed)"
    by (simp add: call_unnamed_def rpc_def tool_name_def js_or_def)
  from missing_name_invalid_params [OF h1 h2 h3, of stub "JArr []" res0 "()" 0] h1 h2 h3
  show ?thesis by blast
qed





section \<open>Envelope validation\<close>

text \<open>
  A body that is there and whose \<^verbatim>\<open>jsonrpc\<close> is not the string \<^verbatim>\<open>"2.0"\<close> (missing, of another
  type, or another string) is answered with status 400 and code -32600. The \<^verbatim>\<open>id\<close> of the
  reply is \<^verbatim>\<open>request.id || null\<close>: the request's id when that is truthy, \<^verbatim>\<open>null\<close> otherwise.
\<close>

lemma mcp_invalid_request:
  assumes "body req \<noteq> JUndefined" and "body req \<noteq> JNull"
    and "get_prop (body req) ''jsonrpc'' \<noteq> JStr ''2.0''"
  shows "mcp handleToolCall tools req r s =
           (json (JObj [(''jsonrpc'', JStr ''2.0''),
                        (''error'', JObj [(''code'', JNum (- 32600)),
                                          (''message'', JStr ''Invalid Request'')]),
                        (''id'', js_or (get_prop (body req) ''id'') JNull)])
              (status 400 r), s)"
  using assms by (simp add: mcp_def Let_def)

text \<open>
  C2. The request \<^verbatim>\<open>{"jsonrpc":"1.0","id":0,"method":"initialize"}\<close> carries the id \<^verbatim>\<open>0\<close>;
  the reply has code -32600, and its id is \<^verbatim>\<open>null\<close>, not \<^verbatim>\<open>0\<close>.
\<close>

theorem invalid_request_drops_id_zero:
  "mcp handleToolCall tools old_tag_id_zero r s =
     (json (JObj [(''jsonrpc'', JStr ''2.0''),
                  (''error'', JObj [(''code'', JNum (- 32600)),
                                    (''message'', JStr ''Invalid Request'')]),
                  (''id'', JNull)])
        (status 400 r), s)
   \<and> get_prop (body old_tag_id_zero) ''id'' = JNum 0
   \<and> reply_id (fst (mcp handleToolCall tools old_tag_id_zero r s)) = JNull"
  by (simp add: mcp_def Let_def old_tag_id_zero_def rpc_def js_or_def reply_id_def
      envelope_def json_def status_def)

theorem invalid_request_drops_id_zero_witness:
  "get_prop (body old_tag_id_zero) ''id'' = JNum 0
   \<and> error_code (fst (mcp stub (JArr []) old_tag_id_zero res0 ())) = JNum (- 32600)
   \<and> reply_id (fst (mcp stub (JArr []) old_tag_id_zero res0 ())) = JNull"
proof -
  note t = invalid_request_drops_id_zero [of stub "JArr []" res0 "()"]
  from t have "error_code (fst (mcp stub (JArr []) old_tag_id_zero res0 ())) = JNum (- 32600)"
    by (simp add: error_code_def envelope_def json_def)
  with t show ?thesis by blast
qed


section \<open>The application: CORS and routing\<close>

lemma cors_options:
  "req_method req = ''OPTIONS'' \<Longrightarrow>
     cors req res0 = End \<lparr>statusCode = 200, headers = cors_headers, sent = Some (Text ''OK'')\<rparr>"
  by (simp add: cors_def res0_def setHeader_def sendStatus_def status_message_def
      cors_headers_def Let_def)

lemma cors_next:
  "req_method req \<noteq> ''OPTIONS'' \<Longrightarrow> cors req res0 = Next after_cors"
  by (simp add: cors_def res0_def setHeader_def cors_headers_def after_cors_def Let_def)

lemma apiKeyAuth_Next: "apiKeyAuth MCP_API_KEY req r = Next r' \<Longrightarrow> r' = r"
  by (auto simp add: apiKeyAuth_def split: option.splits if_splits)

text \<open>
  A request that \<^verbatim>\<open>express.json()\<close> accepts, that is not an \<^verbatim>\<open>OPTIONS\<close> request, that the
  route \<^verbatim>\<open>POST /mcp\<close> takes and that the API key middleware lets through is handled by \<open>mcp\<close>,
  on a response with status 200 and the CORS headers.
\<close>

lemma app_mcp:
  assumes "body_error req = None"
    and "req_method req \<noteq> ''OPTIONS''"
    and "\<not> matches ''GET'' ''/health'' req"
    and "matches ''POST'' ''/mcp'' req"
    and "apiKeyAuth MCP_API_KEY req after_cors = Next after_cors"
  shows "app matches MCP_API_KEY tools handleToolCall req s =
           (Reply (fst (mcp handleToolCall tools req after_cors s)),
            snd (mcp handleToolCall tools req after_cors s))"
  using assms by (simp add: app_def cors_next split: prod.splits)

text \<open>
  C3, as the code has it. A \<^verbatim>\<open>tools/call\<close> request with a non-empty (truthy) name that
  reaches the handler, and for which the collaborator fails with an \<^verbatim>\<open>Error\<close> whose message is
  the string \<open>d\<close>, or with another value that \<^verbatim>\<open>String\<close> turns into the string \<open>d\<close>: the
  application replies with HTTP status 200, code -32603, message \<^verbatim>\<open>Internal error\<close> and data
  \<open>d\<close>.
\<close>

theorem collaborator_failure_internal_error:
  assumes "body_error req = None"
    and "req_method req \<noteq> ''OPTIONS''"
    and "\<not> matches ''GET'' ''/health'' req"
    and "matches ''POST'' ''/mcp'' req"
    and "apiKeyAuth MCP_API_KEY req after_cors = Next after_cors"
    and "get_prop (body req) ''jsonrpc'' = JStr ''2.0''"
    and "get_prop (body req) ''method'' = JStr ''tools/call''"
    and "truthy (tool_name req)"
    and "handleToolCall (tool_name req) (tool_args req) s = (Rejected error, s')"
    and "error = ErrorInstance (JStr d) \<or> error = NonError d"
  shows "app matches MCP_API_KEY tools handleToolCall req s =
           (Reply \<lparr>statusCode = 200, headers = cors_headers,
                   sent = Some (Json (JObj [(''jsonrpc'', JStr ''2.0''),
                            (''id'', get_prop (body req) ''id''),
                            (''error'', JObj [(''code'', JNum (- 32603)),
                                              (''message'', JStr ''Internal error''),
                                              (''data'', JStr d)])]))\<rparr>, s')"
proof -
  from assms(10) have "error_data error = Inr (JStr d)" by auto
  with assms(6-9) have "mcp handleToolCall tools req after_cors s =
      (json (JObj [(''jsonrpc'', JStr ''2.0''),
                   (''id'', get_prop (body req) ''id''),
                   (''error'', JObj [(''code'', JNum (- 32603)),
                                     (''message'', JStr ''Internal error''),
                                     (''data'', JStr d)])]) after_cors, s')"
    by (simp add: mcp_tools_call)
  with app_mcp [where matches = matches and req = req and MCP_API_KEY = MCP_API_KEY
                  and tools = tools and handleToolCall = handleToolCall and s = s,
                OF assms(1-5)]
  show ?thesis
    by (simp add: json_def after_cors_def)
qed

lemma rpc_reaches_mcp:
  "body_error (rpc b) = None"
  "req_method (rpc b) \<noteq> ''OPTIONS''"
  "\<not> exact ''GET'' ''/health'' (rpc b)"
  "exact ''POST'' ''/mcp'' (rpc b)"
  "apiKeyAuth (Some ''s3cret'') (rpc b) after_cors = Next after_cors"
  by (simp_all add: rpc_def exact_def apiKeyAuth_def providedKey_def js_or_def
      apiKeyFromHeader_def startsWith_def substring_def)

theorem collaborator_failure_internal_error_witness:
  "body_error call_X = None
   \<and> req_method call_X \<noteq> ''OPTIONS''
   \<and> \<not> exact ''GET'' ''/health'' call_X
   \<and> exact ''POST'' ''/mcp'' call_X
   \<and> apiKeyAuth (Some ''s3cret'') call_X after_cors = Next after_cors
   \<and> get_prop (body call_X) ''jsonrpc'' = JStr ''2.0''
   \<and> get_prop (body call_X) ''method'' = JStr ''tools/call''
   \<and> truthy (tool_name call_X)
   \<and> stub (tool_name call_X) (tool_args call_X) () = (Rejected (ErrorInstance (JStr ''boom'')), ())
   \<and> app exact (Some ''s3cret'') (JArr []) stub call_X () =
           (Reply \<lparr>statusCode = 200, headers = cors_headers,
                   sent = Some (Json (JObj [(''jsonrpc'', JStr ''2.0''),
                            (''id'', JNum 1),
                            (''error'', JObj [(''code'', JNum (- 32603)),
                                              (''message'', JStr ''Internal error''),
                                              (''data'', JStr ''boom'')])]))\<rparr>, ())
   \<and> stub (tool_name call_Z) (tool_args call_Z) () = (Rejected (NonError ''404''), ())
   \<and> app exact (Some ''s3cret'') (JArr []) stub call_Z () =
           (Reply \<lparr>statusCode = 200, headers = cors_headers,
                   sent = Some (Json (JObj [(''jsonrpc'', JStr ''2.0''),
                            (''id'', JNum 5),
                            (''error'', JObj [(''code'', JNum (- 32603)),
                                              (''message'', JStr ''Internal error''),
                                              (''data'', JStr ''404'')])]))\<rparr>, ())"
proof -
  have x: "call_X = rpc (body call_X)" "call_Z = rpc (body call_Z)"
    by (simp_all add: call_X_def call_Z_def rpc_def)
  have a1: "body_error call_X = None" and a2: "req_method call_X \<noteq> ''OPTIONS''"
    and a3: "\<not> exact ''GET'' ''/health'' call_X" and a4: "exact ''POST'' ''/mcp'' call_X"
    and a5: "apiKeyAuth (Some ''s3cret'') call_X after_cors = Next after_cors"
    using rpc_reaches_mcp [of "body call_X"] by (simp_all add: x(1) [symmetric])
  have b1: "body_error call_Z = None" and b2: "req_method call_Z \<noteq> ''OPTIONS''"
    and b3: "\<not> exact ''GET'' ''/health'' call_Z" and b4: "exact ''POST'' ''/mcp'' call_Z"
    and b5: "apiKeyAuth (Some ''s3cret'') call_Z after_cors = Next after_cors"
    using rpc_reaches_mcp [of "body call_Z"] by (simp_all add: x(2) [symmetric])
  have h1: "get_prop (body call_X) ''jsonrpc'' = JStr ''2.0''"
    and h2: "get_prop (body call_X) ''method'' = JStr ''tools/call''"
    and i: "get_prop (body call_X) ''id'' = JNum 1"
    by (simp_all add: call_X_def rpc_def)
  have h3: "truthy (tool_name call_X)"
    by (simp add: call_X_def rpc_def tool_name_def js_or_def)
  have h4: "stub (tool_name call_X) (tool_args call_X) () = (Rejected (ErrorInstance (JStr ''boom'')), ())"
    by (simp add: call_X_def rpc_def tool_name_def js_or_def stub_def)
  have g1: "get_prop (body call_Z) ''jsonrpc'' = JStr ''2.0''"
    and g2: "get_prop (body call_Z) ''method'' = JStr ''tools/call''"
    and j: "get_prop (body call_Z) ''id'' = JNum 5"
    by (simp_all add: call_Z_def rpc_def)
  have g3: "truthy (tool_name call_Z)"
    by (simp add: call_Z_def rpc_def tool_name_def js_or_def)
  have g4: "stub (tool_name call_Z) (tool_args call_Z) () = (Rejected (NonError ''404''), ())"
    by (simp add: call_Z_def rpc_def tool_name_def js_or_def stub_def)
  have e: "ErrorInstance (JStr ''boom'') = ErrorInstance (JStr ''boom'')
             \<or> ErrorInstance (JStr ''boom'') = NonError ''boom''"
    by simp
  have f: "NonError ''404'' = ErrorInstance (JStr ''404'') \<or> NonError ''404'' = NonError ''404''"
    by simp
  note t = collaborator_failure_internal_error
    [where handleToolCall = stub and req = call_X and s = "()" and tools = "JArr []"
       and matches = exact and MCP_API_KEY = "Some ''s3cret''",
     OF a1 a2 a3 a4 a5 h1 h2 h3 h4 e, unfolded i]
  note u = collaborator_failure_internal_error
    [where handleToolCall = stub and req = call_Z and s = "()" and tools = "JArr []"
       and matches = exact and MCP_API_KEY = "Some ''s3cret''",
     OF b1 b2 b3 b4 b5 g1 g2 g3 g4 f, unfolded j]
  from t u a1 a2 a3 a4 a5 h1 h2 h3 h4 g4 show ?thesis by blast
qed

text \<open>
  C3, as it is stated, fails: for the tool \<^verbatim>\<open>W\<close> the collaborator throws a value on which
  \<^verbatim>\<open>String(error)\<close> throws in its turn, inside the inner \<^verbatim>\<open>catch\<close>; the outer \<^verbatim>\<open>catch\<close> answers
  with HTTP status 500.
\<close>

theorem unprintable_failure_counterexample:
  "body_error call_W = None
   \<and> req_method call_W \<noteq> ''OPTIONS''
   \<and> \<not> exact ''GET'' ''/health'' call_W
   \<and> exact ''POST'' ''/mcp'' call_W
   \<and> apiKeyAuth (Some ''s3cret'') call_W after_cors = Next after_cors
   \<and> get_prop (body call_W) ''jsonrpc'' = JStr ''2.0''
   \<and> get_prop (body call_W) ''method'' = JStr ''tools/call''
   \<and> truthy (tool_name call_W)
   \<and> stub (tool_name call_W) (tool_args call_W) ()
        = (Rejected (Unprintable (ErrorInstance (JStr cannot_convert))), ())
   \<and> app exact (Some ''s3cret'') (JArr []) stub call_W () =
           (Reply \<lparr>statusCode = 500, headers = cors_headers,
                   sent = Some (Json (JObj [(''jsonrpc'', JStr ''2.0''),
                            (''id'', JNum 6),
                            (''error'', JObj [(''code'', JNum (- 32603)),
                                              (''message'', JStr ''Internal error''),
                                              (''data'', JStr cannot_convert)])]))\<rparr>, ())"
proof -
  have x: "call_W = rpc (body call_W)"
    by (simp add: call_W_def rpc_def)
  have a1: "body_error call_W = None" and a2: "req_method call_W \<noteq> ''OPTIONS''"
    and a3: "\<not> exact ''GET'' ''/health'' call_W" and a4: "exact ''POST'' ''/mcp'' call_W"
    and a5: "apiKeyAuth (Some ''s3cret'') call_W after_cors = Next after_cors"
    using rpc_reaches_mcp [of "body call_W"] by (simp_all add: x [symmetric])
  have h1: "get_prop (body call_W) ''jsonrpc'' = JStr ''2.0''"
    and h2: "get_prop (body call_W) ''method'' = JStr ''tools/call''"
    by (simp_all add: call_W_def rpc_def)
  have h3: "truthy (tool_name call_W)"
    by (simp add: call_W_def rpc_def tool_name_def js_or_def)
  have h4: "stub (tool_name call_W) (tool_args call_W) ()
              = (Rejected (Unprintable (ErrorInstance (JStr cannot_convert))), ())"
    by (simp add: call_W_def rpc_def tool_name_def js_or_def stub_def)
  have "mcp stub (JArr []) call_W after_cors () =
          (catch_all (ErrorInstance (JStr cannot_convert)) call_W after_cors, ())"
    using h3 h4 by (simp add: mcp_tools_call [OF h1 h2])
  moreover have "catch_all (ErrorInstance (JStr cannot_convert)) call_W after_cors =
      \<lparr>statusCode = 500, headers = cors_headers,
       sent = Some (Json (JObj [(''jsonrpc'', JStr ''2.0''),
                (''id'', JNum 6),
                (''error'', JObj [(''code'', JNum (- 32603)),
                                  (''message'', JStr ''Internal error''),
                                  (''data'', JStr cannot_convert)])]))\<rparr>"
    by (simp add: catch_all_def optional_id_def js_or_def json_def status_def after_cors_def
        call_W_def rpc_def)
  ultimately have "app exact (Some ''s3cret'') (JArr []) stub call_W () =
           (Reply \<lparr>statusCode = 500, headers = cors_headers,
                   sent = Some (Json (JObj [(''jsonrpc'', JStr ''2.0''),
                            (''id'', JNum 6),
                            (''error'', JObj [(''code'', JNum (- 32603)),
                                              (''message'', JStr ''Internal error''),
                                              (''data'', JStr cannot_convert)])]))\<rparr>, ())"
    using app_mcp [where matches = exact and req = call_W and MCP_API_KEY = "Some ''s3cret''"
                     and tools = "JArr []" and handleToolCall = stub and s = "()",
                   OF a1 a2 a3 a4 a5]
    by simp
  with a1 a2 a3 a4 a5 h1 h2 h3 h4 show ?thesis by blast
qed

text \<open>
  C9, as the code has it. Every \<^verbatim>\<open>OPTIONS\<close> request that \<^verbatim>\<open>express.json()\<close> accepts,
  whatever its path, credentials and body, whatever the configured secret and the routes, is
  answered by the CORS middleware: status 200, the three CORS headers, and as body the text
  \<^verbatim>\<open>OK\<close> that \<^verbatim>\<open>res.sendStatus(200)\<close> sends, which is no JSON-RPC envelope. Neither the API key
  middleware nor a route runs, and the collaborator's state is as it was.
\<close>

theorem options_short_circuit:
  assumes "req_method req = ''OPTIONS''"
    and "body_error req = None"
  shows "app matches MCP_API_KEY tools handleToolCall req s =
           (Reply \<lparr>statusCode = 200,
                   headers = [(''Access-Control-Allow-Origin'', ''*''),
                              (''Access-Control-Allow-Methods'', ''GET, POST, OPTIONS''),
                              (''Access-Control-Allow-Headers'',
                               ''Content-Type, Authorization, X-API-Key'')],
                   sent = Some (Text ''OK'')\<rparr>, s)"
  using assms by (simp add: app_def cors_options cors_headers_def)

theorem options_short_circuit_witness:
  "req_method preflight = ''OPTIONS''
   \<and> body_error preflight = None
   \<and> app exact (Some ''s3cret'') (JArr []) (counting stub) preflight (0, ()) =
       (Reply \<lparr>statusCode = 200,
               headers = [(''Access-Control-Allow-Origin'', ''*''),
                          (''Access-Control-Allow-Methods'', ''GET, POST, OPTIONS''),
                          (''Access-Control-Allow-Headers'',
                           ''Content-Type, Authorization, X-API-Key'')],
               sent = Some (Text ''OK'')\<rparr>, (0, ()))"
proof -
  have h: "req_method preflight = ''OPTIONS''" by (simp add: preflight_def)
  have b: "body_error preflight = None" by (simp add: preflight_def)
  from options_short_circuit
         [where req = preflight and matches = exact and MCP_API_KEY = "Some ''s3cret''"
            and tools = "JArr []" and handleToolCall = "counting stub" and s = "(0, ())",
          OF h b] h b
  show ?thesis by simp
qed

text \<open>
  C9, as it is stated, fails twice. The reply to the \<^verbatim>\<open>OPTIONS\<close> request \<open>preflight\<close> has a
  body, the text \<^verbatim>\<open>OK\<close>. And the \<^verbatim>\<open>OPTIONS\<close> request \<open>preflight_bad_json\<close>, whose JSON body does
  not parse, is answered by Express's error handler with status 400 before the CORS middleware
  runs.
\<close>

theorem options_body_counterexample:
  "req_method preflight = ''OPTIONS''
   \<and> fst (app exact (Some ''s3cret'') (JArr []) stub preflight ())
       = Reply \<lparr>statusCode = 200, headers = cors_headers, sent = Some (Text ''OK'')\<rparr>
   \<and> \<not> no_body (fst (app exact (Some ''s3cret'') (JArr []) stub preflight ()))
   \<and> req_method preflight_bad_json = ''OPTIONS''
   \<and> fst (app exact (Some ''s3cret'') (JArr []) stub preflight_bad_json ()) = BodyRejected 400"
  by (simp add: app_def cors_options preflight_def preflight_bad_json_def no_body_def)


section \<open>Properties of the event stream\<close>

lemma run_append: "run (es @ fs) st = run fs (run es st)"
  by (induction es arbitrary: st) simp_all

lemma replicate_Suc_end: "replicate (Suc n) x = replicate n x @ [x]"
  by (simp add: replicate_append_same)

text \<open>The timer set for the next multiple of \<open>k\<close> after \<open>n\<close> is due at \<open>n + 1\<close> exactly when
  \<open>k\<close> divides \<open>n + 1\<close>.\<close>

lemma due_iff:
  assumes "0 < k"
  shows "(Suc n = k * Suc (n div k)) = (Suc n mod k = 0)"
proof
  assume "Suc n = k * Suc (n div k)"
  then have "Suc n mod k = (k * Suc (n div k)) mod k" by simp
  then show "Suc n mod k = 0" by simp
next
  assume m: "Suc n mod k = 0"
  then have "Suc n div k = Suc (n div k)" by (simp add: div_Suc)
  moreover from m have "Suc n = k * (Suc n div k)" by auto
  ultimately show "Suc n = k * Suc (n div k)" by simp
qed

text \<open>The stream after \<open>n\<close> milliseconds without a \<^verbatim>\<open>close\<close>.\<close>

lemma run_milliseconds:
  "run (replicate n Millisecond) (sse r) =
     \<lparr>response = response (sse r), clock = n,
      written = (0, connected) #
        map (\<lambda>k. (k * keepAliveInterval, keepalive)) [1..<Suc (n div keepAliveInterval)],
      keepAlive = Some (keepAliveInterval * Suc (n div keepAliveInterval)),
      ended = False\<rparr>"
proof (induction n)
  case 0
  show ?case by (simp add: sse_def Let_def keepAliveInterval_def)
next
  case (Suc n)
  have k: "0 < keepAliveInterval" by (simp add: keepAliveInterval_def)
  have "run (replicate (Suc n) Millisecond) (sse r)
          = step Millisecond (run (replicate n Millisecond) (sse r))"
    by (simp only: replicate_Suc_end run_append run.simps)
  also have "\<dots> = \<lparr>response = response (sse r), clock = Suc n,
      written = (0, connected) #
        map (\<lambda>k. (k * keepAliveInterval, keepalive)) [1..<Suc (Suc n div keepAliveInterval)],
      keepAlive = Some (keepAliveInterval * Suc (Suc n div keepAliveInterval)),
      ended = False\<rparr>"
  proof (cases "Suc n mod keepAliveInterval = 0")
    case True
    with due_iff [OF k, of n]
    have d: "Suc n = keepAliveInterval * Suc (n div keepAliveInterval)" by simp
    from True have e: "Suc n div keepAliveInterval = Suc (n div keepAliveInterval)"
      by (simp add: div_Suc)
    from d have f: "Suc (n div keepAliveInterval) * keepAliveInterval = Suc n"
      by (simp add: mult.commute)
    show ?thesis
      unfolding Suc.IH e
      using d f by (simp add: Let_def add.commute)
  next
    case False
    with due_iff [OF k, of n]
    have d: "Suc n \<noteq> keepAliveInterval * Suc (n div keepAliveInterval)" by simp
    from False have e: "Suc n div keepAliveInterval = n div keepAliveInterval"
      by (simp add: div_Suc)
    show ?thesis
      unfolding Suc.IH e
      using d by (simp add: Let_def)
  qed
  finally show ?case .
qed

text \<open>Once the timer is cancelled nothing more is written, and the timer stays cancelled.\<close>

lemma run_cancelled:
  "keepAlive st = None \<Longrightarrow> written (run es st) = written st \<and> keepAlive (run es st) = None"
proof (induction es arbitrary: st)
  case Nil
  then show ?case by simp
next
  case (Cons e es)
  then show ?case by (cases e) (simp_all add: Let_def)
qed

lemma takeWhile_open:
  "takeWhile (\<lambda>e. e \<noteq> Close) es = replicate (open_time es) Millisecond"
  unfolding open_time_def
proof (induction es)
  case Nil
  show ?case by simp
next
  case (Cons e es)
  then show ?case by (cases e) simp_all
qed

lemma dropWhile_open:
  "dropWhile (\<lambda>e. e \<noteq> Close) es =
     (if Close \<in> set es then Close # tl (dropWhile (\<lambda>e. e \<noteq> Close) es) else [])"
proof (induction es)
  case Nil
  show ?case by simp
next
  case (Cons e es)
  then show ?case by (cases e) auto
qed

lemma open_time_replicate: "open_time (replicate n Millisecond @ Close # es) = n"
  by (induction n) (simp_all add: open_time_def)

text \<open>
  C8. Whatever happens to a stream after it is opened, what has been written is the one
  connection event (the chunk \<^verbatim>\<open>data: {"type":"connection","status":"connected"}\<close> and an
  empty line), at time 0 and first, followed by one keep-alive (the comment \<^verbatim>\<open>: keepalive\<close> and
  an empty line) for every multiple of
  30000 milliseconds (30 seconds) that was reached before the first \<^verbatim>\<open>close\<close>, each at that
  time, and nothing else: no keep-alive is written after the \<^verbatim>\<open>close\<close>, which leaves the timer
  cancelled.
\<close>

theorem stream_events:
  \<open>written (run es (sse r)) =
     (0, connected) #
       map (\<lambda>k. (k * keepAliveInterval, keepalive))
         [1..<Suc (open_time es div keepAliveInterval)]
   \<and> connected = ''data: {"type":"connection","status":"connected"}\<newline>\<newline>''
   \<and> keepalive = '': keepalive\<newline>\<newline>''
   \<and> connected \<noteq> keepalive
   \<and> keepAliveInterval = 30 * 1000
   \<and> keepAlive (run es (sse r)) =
       (if Close \<in> set es then None
        else Some (keepAliveInterval * Suc (open_time es div keepAliveInterval)))\<close>
proof -
  let ?n = "open_time es"
  let ?rest = "dropWhile (\<lambda>e. e \<noteq> Close) es"
  let ?st = "run (replicate ?n Millisecond) (sse r)"
  have "run es (sse r) = run (takeWhile (\<lambda>e. e \<noteq> Close) es @ ?rest) (sse r)"
    by simp
  also have "\<dots> = run ?rest (run (takeWhile (\<lambda>e. e \<noteq> Close) es) (sse r))"
    by (rule run_append)
  finally have split: "run es (sse r) = run ?rest ?st"
    by (simp only: takeWhile_open)
  have w: "written ?st =
     (0, connected) #
       map (\<lambda>k. (k * keepAliveInterval, keepalive)) [1..<Suc (?n div keepAliveInterval)]"
    and t: "keepAlive ?st = Some (keepAliveInterval * Suc (?n div keepAliveInterval))"
    by (simp_all add: run_milliseconds)
  have "written (run ?rest ?st) = written ?st
      \<and> keepAlive (run ?rest ?st) = (if Close \<in> set es then None else keepAlive ?st)"
  proof (cases "Close \<in> set es")
    case True
    then obtain fs where fs: "?rest = Close # fs"
      using dropWhile_open [of es] by simp
    have "keepAlive (step Close ?st) = None" by simp
    from run_cancelled [OF this, of fs] True show ?thesis
      by (simp add: fs)
  next
    case False
    then have e: "?rest = []" using dropWhile_open [of es] by simp
    show ?thesis unfolding e using False by simp
  qed
  with split w t have
    "written (run es (sse r)) =
     (0, connected) #
       map (\<lambda>k. (k * keepAliveInterval, keepalive)) [1..<Suc (?n div keepAliveInterval)]"
    "keepAlive (run es (sse r)) =
       (if Close \<in> set es then None
        else Some (keepAliveInterval * Suc (?n div keepAliveInterval)))"
    by simp_all
  moreover have "connected \<noteq> keepalive" by (simp add: connected_def keepalive_def)
  moreover have \<open>connected = ''data: {"type":"connection","status":"connected"}\<newline>\<newline>''\<close>
    by (simp add: connected_def)
  moreover have "keepalive = '': keepalive\<newline>\<newline>''"
    by (simp add: keepalive_def)
  moreover have "keepAliveInterval = 30 * 1000" by (simp add: keepAliveInterval_def)
  ultimately show ?thesis by blast
qed

theorem stream_events_witness:
  \<open>written (run two_minutes (sse res0)) =
     [(0, ''data: {"type":"connection","status":"connected"}\<newline>\<newline>''),
      (30000, '': keepalive\<newline>\<newline>''),
      (60000, '': keepalive\<newline>\<newline>'')]
   \<and> keepAlive (run two_minutes (sse res0)) = None\<close>
proof -
  have n: "open_time two_minutes = 60000"
    unfolding two_minutes_def by (rule open_time_replicate)
  have c: "Close \<in> set two_minutes" by (simp add: two_minutes_def)
  have d: "open_time two_minutes div keepAliveInterval = 2"
    by (simp add: n keepAliveInterval_def)
  have u: "[1..<Suc 2] = [1, 2::nat]"
    by code_simp
  note t = stream_events [of two_minutes res0, unfolded d u]
  from t c show ?thesis
    by (simp add: keepAliveInterval_def)
qed

end
